theory Spec2Isabelle
  imports Main
begin

section \<open>Strings and the naming transforms of \<^verbatim>\<open>NestJSGenerator\<close>\<close>

text \<open>
  A JavaScript string is modelled as a \<^typ>\<open>string\<close>, one \<^typ>\<open>char\<close> per code unit.
  Module names, template identifiers and paths are taken to be ASCII text: the case
  mappings below change the letters \<^verbatim>\<open>a-z\<close> and \<^verbatim>\<open>A-Z\<close> and leave every other code unit
  as it is, which is what \<^verbatim>\<open>toUpperCase\<close> and \<^verbatim>\<open>toLowerCase\<close> do on ASCII text.
\<close>

definition isLowerAZ :: "char \<Rightarrow> bool" where
  \<comment> \<open>the character class \<^verbatim>\<open>[a-z]\<close>\<close>
  "isLowerAZ c = (97 \<le> (of_char c :: nat) \<and> (of_char c :: nat) \<le> 122)"

definition isUpperAZ :: "char \<Rightarrow> bool" where
  \<comment> \<open>the character class \<^verbatim>\<open>[A-Z]\<close>\<close>
  "isUpperAZ c = (65 \<le> (of_char c :: nat) \<and> (of_char c :: nat) \<le> 90)"

definition toUpperChar :: "char \<Rightarrow> char" where
  "toUpperChar c = (if isLowerAZ c then char_of ((of_char c :: nat) - 32) else c)"

definition toLowerChar :: "char \<Rightarrow> char" where
  "toLowerChar c = (if isUpperAZ c then char_of ((of_char c :: nat) + 32) else c)"

definition toUpperCase :: "string \<Rightarrow> string" where
  "toUpperCase s = map toUpperChar s"

definition toLowerCase :: "string \<Rightarrow> string" where
  "toLowerCase s = map toLowerChar s"

text \<open>
  \<^verbatim>\<open>str.replace(/([a-z])([A-Z])/g, '$1' + sep + '$2')\<close>: the scan goes from left to
  right; a match consumes both characters and the scan resumes after it.
\<close>

fun replaceCaseBoundary :: "char \<Rightarrow> string \<Rightarrow> string" where
  "replaceCaseBoundary sep (a # b # rest) =
     (if isLowerAZ a \<and> isUpperAZ b
      then a # sep # b # replaceCaseBoundary sep rest
      else a # replaceCaseBoundary sep (b # rest))"
| "replaceCaseBoundary sep s = s"

definition toPascalCase :: "string \<Rightarrow> string" where
  \<comment> \<open>\<^verbatim>\<open>str.charAt(0).toUpperCase() + str.slice(1)\<close>\<close>
  "toPascalCase str = toUpperCase (take 1 str) @ drop 1 str"

definition toCamelCase :: "string \<Rightarrow> string" where
  \<comment> \<open>\<^verbatim>\<open>str.charAt(0).toLowerCase() + str.slice(1)\<close>\<close>
  "toCamelCase str = toLowerCase (take 1 str) @ drop 1 str"

definition toKebabCase :: "string \<Rightarrow> string" where
  "toKebabCase str = toLowerCase (replaceCaseBoundary (CHR ''-'') str)"

definition toSnakeCase :: "string \<Rightarrow> string" where
  "toSnakeCase str = toLowerCase (replaceCaseBoundary (CHR ''_'') str)"


section \<open>Global replacement of a literal token\<close>

text \<open>
  \<^verbatim>\<open>content.replace(new RegExp(placeholder, 'g'), value)\<close>, for a placeholder such as
  \<^verbatim>\<open>{{moduleName}}\<close>: as a regular expression the placeholder has no capture group and
  matches its own text literally. The second argument is a replacement \<^emph>\<open>pattern\<close>: in it
  \<^verbatim>\<open>$$\<close> stands for a dollar sign, \<^verbatim>\<open>$&\<close> for the matched text, \<^verbatim>\<open>$`\<close> for the text
  before the match and \<^verbatim>\<open>$'\<close> for the text after it; with no capture group every other
  use of \<^verbatim>\<open>$\<close> is literal.
\<close>

fun getSubstitution :: "string \<Rightarrow> string \<Rightarrow> string \<Rightarrow> string \<Rightarrow> string" where
  "getSubstitution matched pre post (c # d # rest) =
     (if c = CHR ''$'' \<and> d = CHR ''$'' then CHR ''$'' # getSubstitution matched pre post rest
      else if c = CHR ''$'' \<and> d = CHR ''&'' then matched @ getSubstitution matched pre post rest
      else if c = CHR ''$'' \<and> d = CHR 0x60 then pre @ getSubstitution matched pre post rest
      else if c = CHR ''$'' \<and> d = CHR 0x27 then post @ getSubstitution matched pre post rest
      else c # getSubstitution matched pre post (d # rest))"
| "getSubstitution matched pre post s = s"

fun startsWith :: "string \<Rightarrow> string \<Rightarrow> bool" where
  "startsWith [] s = True"
| "startsWith (p # ps) [] = False"
| "startsWith (p # ps) (c # cs) = (p = c \<and> startsWith ps cs)"

text \<open>
  The scan: \<open>pre\<close> is the text already passed, \<open>skip\<close> the number of characters
  of the current match still to be consumed. Matches are found from left to right and do
  not overlap. The generator only searches for its non-empty placeholder tokens.
\<close>

fun replaceAllFrom :: "string \<Rightarrow> string \<Rightarrow> string \<Rightarrow> nat \<Rightarrow> string \<Rightarrow> string" where
  "replaceAllFrom pat rep pre skip [] = []"
| "replaceAllFrom pat rep pre (Suc k) (c # cs) = replaceAllFrom pat rep (pre @ [c]) k cs"
| "replaceAllFrom pat rep pre 0 (c # cs) =
     (if pat \<noteq> [] \<and> startsWith pat (c # cs)
      then getSubstitution pat pre (drop (length pat) (c # cs)) rep
           @ replaceAllFrom pat rep (pre @ [c]) (length pat - 1) cs
      else c # replaceAllFrom pat rep (pre @ [c]) 0 cs)"

definition replaceAll :: "string \<Rightarrow> string \<Rightarrow> string \<Rightarrow> string" where
  "replaceAll pat rep s = replaceAllFrom pat rep [] 0 s"

text \<open>
  The body of \<^verbatim>\<open>processTemplate\<close> after the read: the six replacements, applied one
  after the other in the order of the \<^verbatim>\<open>replacements\<close> object, each to the result of
  the one before.
\<close>

definition replacements :: "string \<Rightarrow> (string \<times> string) list" where
  "replacements moduleName =
     [(''{{moduleName}}'', moduleName),
      (''{{ModuleName}}'', toPascalCase moduleName),
      (''{{module_name}}'', toSnakeCase moduleName),
      (''{{module-name}}'', toKebabCase moduleName),
      (''{{camelModuleName}}'', toCamelCase moduleName),
      (''{{MODULE_NAME}}'', toUpperCase moduleName)]"

definition replacePlaceholders :: "string \<Rightarrow> string \<Rightarrow> string" where
  "replacePlaceholders moduleName content =
     foldl (\<lambda>acc (placeholder, v). replaceAll placeholder v acc) content (replacements moduleName)"

section \<open>Paths\<close>

text \<open>
  \<^verbatim>\<open>path.join\<close> of Node.js on a POSIX system: the non-empty arguments are joined with
  \<^verbatim>\<open>/\<close> and the result is normalised (\<^verbatim>\<open>.\<close> and empty segments are dropped, \<^verbatim>\<open>..\<close>
  removes the segment before it).
\<close>

fun splitSlash :: "string \<Rightarrow> string list" where
  "splitSlash [] = [[]]"
| "splitSlash (c # cs) =
     (if c = CHR ''/'' then [] # splitSlash cs
      else (case splitSlash cs of [] \<Rightarrow> [[c]] | seg # segs \<Rightarrow> (c # seg) # segs))"

fun normalizeSegments :: "bool \<Rightarrow> string list \<Rightarrow> string list \<Rightarrow> string list" where
  "normalizeSegments allowAboveRoot res [] = res"
| "normalizeSegments allowAboveRoot res (seg # segs) =
     (if seg = [] \<or> seg = ''.'' then normalizeSegments allowAboveRoot res segs
      else if seg = ''..'' then
        (if res \<noteq> [] \<and> last res \<noteq> ''..'' then normalizeSegments allowAboveRoot (butlast res) segs
         else if allowAboveRoot then normalizeSegments allowAboveRoot (res @ [''..'']) segs
         else normalizeSegments allowAboveRoot res segs)
      else normalizeSegments allowAboveRoot (res @ [seg]) segs)"

fun joinWith :: "string \<Rightarrow> string list \<Rightarrow> string" where
  "joinWith sep [] = []"
| "joinWith sep [s] = s"
| "joinWith sep (s # t # ss) = s @ sep @ joinWith sep (t # ss)"

definition normalize :: "string \<Rightarrow> string" where
  "normalize p =
     (if p = [] then ''.''
      else
        let isAbsolute = (hd p = CHR ''/'');
            trailingSeparator = (last p = CHR ''/'');
            q = joinWith ''/'' (normalizeSegments (\<not> isAbsolute) [] (splitSlash p))
        in if q = [] then (if isAbsolute then ''/'' else if trailingSeparator then ''./'' else ''.'')
           else (if isAbsolute then ''/'' else []) @ q @ (if trailingSeparator then ''/'' else []))"

definition path_join :: "string list \<Rightarrow> string" where
  "path_join args =
     (case filter (\<lambda>a. a \<noteq> []) args of
        [] \<Rightarrow> ''.''
      | joined \<Rightarrow> normalize (joinWith ''/'' joined))"


section \<open>Configuration\<close>

text \<open>
  \<^verbatim>\<open>this.config\<close>. A property that may be left out of a template's entry is an
  \<^typ>\<open>string option\<close>. \<^verbatim>\<open>templates\<close> is a list in the order \<^verbatim>\<open>Object.entries\<close> visits it;
  \<^verbatim>\<open>exclusions\<close> is only ever looked up by key, so it is a map (own properties only).
\<close>

record templateConfig =
  extension :: string
  required :: bool
  outputPath :: "string option"
  filename :: "string option"

record config =
  templatesDir :: string
  outputDir :: string
  templates :: "(string \<times> templateConfig) list"
  exclusions :: "string \<rightharpoonup> string list"

definition defaultConfig :: config where
  \<comment> \<open>the constructor\<close>
  "defaultConfig =
     \<lparr> templatesDir = ''./templates'',
       outputDir = ''./src/modules'',
       templates =
         [(''module'', \<lparr>extension = ''module.ts'', required = True, outputPath = None, filename = None\<rparr>),
          (''controller'', \<lparr>extension = ''controller.ts'', required = True, outputPath = None, filename = None\<rparr>),
          (''service'', \<lparr>extension = ''service.ts'', required = True, outputPath = None, filename = None\<rparr>),
          (''create-dto'', \<lparr>extension = ''dto.ts'', required = False, outputPath = Some ''dto'',
             filename = Some ''create-{{moduleName}}.dto.ts''\<rparr>),
          (''update-dto'', \<lparr>extension = ''dto.ts'', required = False, outputPath = Some ''dto'',
             filename = Some ''update-{{moduleName}}.dto.ts''\<rparr>),
          (''schema'', \<lparr>extension = ''schema.ts'', required = False, outputPath = Some ''schema'',
             filename = Some ''{{moduleName}}.schema.ts''\<rparr>)],
       exclusions =
         [''create-dto'' \<mapsto> [''auth'', ''payments''],
          ''update-dto'' \<mapsto> [''auth'', ''payments''],
          ''schema'' \<mapsto> [''auth'', ''sidebar'']] \<rparr>"

definition shouldExclude :: "config \<Rightarrow> string \<Rightarrow> string \<Rightarrow> bool" where
  \<comment> \<open>\<^verbatim>\<open>excludeList && excludeList.includes(moduleName)\<close>, read as a condition\<close>
  "shouldExclude cfg moduleName templateName =
     (case exclusions cfg templateName of
        None \<Rightarrow> False
      | Some excludeList \<Rightarrow> moduleName \<in> set excludeList)"

text \<open>
  A user configuration file exports an object with any of the four properties (a property
  the generator never reads, such as \<^verbatim>\<open>batchModules\<close>, is left out of the model).
  \<^verbatim>\<open>{ ...this.config, ...userConfig }\<close> copies the properties of \<^verbatim>\<open>this.config\<close> and then
  those of \<^verbatim>\<open>userConfig\<close>, property by property. \<^verbatim>\<open>loadConfig\<close> is given what it finds
  at the configuration path: no file, a file whose \<^verbatim>\<open>require\<close> throws, or the exported
  object.
\<close>

record userConfig =
  userTemplatesDir :: "string option"
  userOutputDir :: "string option"
  userTemplates :: "(string \<times> templateConfig) list option"
  userExclusions :: "(string \<rightharpoonup> string list) option"

definition spreadProperty :: "'a \<Rightarrow> 'a option \<Rightarrow> 'a" where
  "spreadProperty builtin user = (case user of None \<Rightarrow> builtin | Some v \<Rightarrow> v)"

definition mergeConfig :: "config \<Rightarrow> userConfig \<Rightarrow> config" where
  "mergeConfig cfg u =
     \<lparr> templatesDir = spreadProperty (templatesDir cfg) (userTemplatesDir u),
       outputDir = spreadProperty (outputDir cfg) (userOutputDir u),
       templates = spreadProperty (templates cfg) (userTemplates u),
       exclusions = spreadProperty (exclusions cfg) (userExclusions u) \<rparr>"

datatype configFile = NoConfigFile | RequireThrows string | Exports userConfig

definition loadConfig :: "config \<Rightarrow> configFile \<Rightarrow> config" where
  \<comment> \<open>no file: nothing happens; \<^verbatim>\<open>require\<close> throws: a warning, the configuration stays\<close>
  "loadConfig cfg file =
     (case file of
        NoConfigFile \<Rightarrow> cfg
      | RequireThrows msg \<Rightarrow> cfg
      | Exports u \<Rightarrow> mergeConfig cfg u)"

section \<open>The file system\<close>

text \<open>
  The file system is a store from path strings to nodes, keyed by the path as it is passed
  to \<^verbatim>\<open>fs\<close>; the parent directories that a recursive \<^verbatim>\<open>mkdir\<close> creates on its way are
  not entered. \<open>denied\<close> holds the paths at which the system refuses to create or write
  anything (no permission, no parent directory, no space); the call then fails, reported
  here as \<^verbatim>\<open>EACCES\<close>. Every call of an \<^verbatim>\<open>fs\<close> function is recorded in \<open>calls\<close>, so that
  a statement can say which accesses a run made.
\<close>

datatype node = File string | Dir

datatype fs_call =
    ExistsSync string
  | ReadFileSync string
  | MkdirSync string
  | WriteFileSync string string

datatype error =
    TemplateNotFound string
  | ENOENT string
  | EISDIR string
  | EEXIST string
  | EACCES string

record world =
  fsys :: "string \<rightharpoonup> node"
  denied :: "string set"
  calls :: "fs_call list"

definition called :: "fs_call \<Rightarrow> world \<Rightarrow> world" where
  "called c w = w\<lparr>calls := calls w @ [c]\<rparr>"

definition existsSync :: "string \<Rightarrow> world \<Rightarrow> bool \<times> world" where
  "existsSync p w = (fsys w p \<noteq> None, called (ExistsSync p) w)"

definition readFileSync :: "string \<Rightarrow> world \<Rightarrow> (error + string) \<times> world" where
  "readFileSync p w =
     (case fsys w p of
        None \<Rightarrow> (Inl (ENOENT p), called (ReadFileSync p) w)
      | Some Dir \<Rightarrow> (Inl (EISDIR p), called (ReadFileSync p) w)
      | Some (File content) \<Rightarrow> (Inr content, called (ReadFileSync p) w))"

definition mkdirSync :: "string \<Rightarrow> world \<Rightarrow> (error + unit) \<times> world" where
  \<comment> \<open>with \<^verbatim>\<open>{ recursive: true }\<close>: an existing directory is not an error\<close>
  "mkdirSync p w =
     (case fsys w p of
        Some Dir \<Rightarrow> (Inr (), called (MkdirSync p) w)
      | Some (File content) \<Rightarrow> (Inl (EEXIST p), called (MkdirSync p) w)
      | None \<Rightarrow>
          if p \<in> denied w then (Inl (EACCES p), called (MkdirSync p) w)
          else (Inr (), called (MkdirSync p) (w\<lparr>fsys := (fsys w)(p \<mapsto> Dir)\<rparr>)))"

definition writeFileSync :: "string \<Rightarrow> string \<Rightarrow> world \<Rightarrow> (error + unit) \<times> world" where
  "writeFileSync p content w =
     (if fsys w p = Some Dir then (Inl (EISDIR p), called (WriteFileSync p content) w)
      else if p \<in> denied w then (Inl (EACCES p), called (WriteFileSync p content) w)
      else (Inr (), called (WriteFileSync p content) (w\<lparr>fsys := (fsys w)(p \<mapsto> File content)\<rparr>)))"

section \<open>The generator\<close>

definition templatePathOf :: "config \<Rightarrow> string \<Rightarrow> string" where
  "templatePathOf cfg templateName = path_join [templatesDir cfg, templateName @ ''.stub'']"

definition processTemplate ::
  "config \<Rightarrow> string \<Rightarrow> string \<Rightarrow> world \<Rightarrow> (error + string) \<times> world" where
  "processTemplate cfg templateName moduleName w =
     (let templatePath = templatePathOf cfg templateName in
      case existsSync templatePath w of
        (False, w1) \<Rightarrow> (Inl (TemplateNotFound templatePath), w1)
      | (True, w1) \<Rightarrow>
          (case readFileSync templatePath w1 of
             (Inl e, w2) \<Rightarrow> (Inl e, w2)
           | (Inr content, w2) \<Rightarrow> (Inr (replacePlaceholders moduleName content), w2)))"

text \<open>
  The two path computations of \<^verbatim>\<open>generateFile\<close>. A condition on a string
  (\<^verbatim>\<open>if (templateConfig.outputPath)\<close>) holds when the property is there and not empty.
\<close>

definition truthy :: "string option \<Rightarrow> bool" where
  "truthy v = (case v of None \<Rightarrow> False | Some s \<Rightarrow> s \<noteq> [])"

definition outputPathOf :: "config \<Rightarrow> string \<Rightarrow> templateConfig \<Rightarrow> string" where
  "outputPathOf cfg moduleName templateConfig =
     (if truthy (outputPath templateConfig)
      then path_join [outputDir cfg, moduleName, the (outputPath templateConfig)]
      else path_join [outputDir cfg, moduleName])"

definition filenameOf :: "string \<Rightarrow> templateConfig \<Rightarrow> string" where
  "filenameOf moduleName templateConfig =
     (if truthy (filename templateConfig)
      then replaceAll ''{{moduleName}}'' moduleName (the (filename templateConfig))
      else moduleName @ ''.'' @ extension templateConfig)"

definition fullPathOf :: "config \<Rightarrow> string \<Rightarrow> templateConfig \<Rightarrow> string" where
  "fullPathOf cfg moduleName templateConfig =
     path_join [outputPathOf cfg moduleName templateConfig, filenameOf moduleName templateConfig]"

text \<open>
  What \<^verbatim>\<open>generateFile\<close> reports on the console, one line per call: the outcome of the
  (module, template) unit. \<open>Failed\<close> is the \<^verbatim>\<open>catch\<close> branch.
\<close>

datatype outcome =
    Generated string
  | SkippedExcluded
  | SkippedExists string
  | Failed error

definition generateFile ::
  "config \<Rightarrow> string \<Rightarrow> string \<Rightarrow> templateConfig \<Rightarrow> world \<Rightarrow> outcome \<times> world" where
  "generateFile cfg moduleName templateName templateConfig w =
     (if shouldExclude cfg moduleName templateName then (SkippedExcluded, w)
      else
        case processTemplate cfg templateName moduleName w of
          (Inl e, w1) \<Rightarrow> (Failed e, w1)
        | (Inr content, w1) \<Rightarrow>
            (case mkdirSync (outputPathOf cfg moduleName templateConfig) w1 of
               (Inl e, w2) \<Rightarrow> (Failed e, w2)
             | (Inr u, w2) \<Rightarrow>
                 (let fullPath = fullPathOf cfg moduleName templateConfig in
                  case existsSync fullPath w2 of
                    (True, w3) \<Rightarrow> (SkippedExists fullPath, w3)
                  | (False, w3) \<Rightarrow>
                      (case writeFileSync fullPath content w3 of
                         (Inl e, w4) \<Rightarrow> (Failed e, w4)
                       | (Inr u, w4) \<Rightarrow> (Generated fullPath, w4)))))"







section \<open>Literal substitution, as a reference\<close>

text \<open>
  What "every occurrence of the token is replaced by the value" means when the value is
  inserted as it is: the reference against which \<^const>\<open>replaceAll\<close> is compared.
\<close>

function substituteEvery :: "string \<Rightarrow> string \<Rightarrow> string \<Rightarrow> string" where
  "substituteEvery token v [] = []"
| "substituteEvery token v (c # cs) =
     (if token \<noteq> [] \<and> startsWith token (c # cs)
      then v @ substituteEvery token v (drop (length token) (c # cs))
      else c # substituteEvery token v cs)"
  by pat_completeness auto
termination
  by (relation "measure (\<lambda>(token, v, s). length s)") auto

section \<open>Templates as text and placeholders, as a reference\<close>

text \<open>
  The six recognised placeholder tokens and the form of the module name each stands for.
  A template is read as a sequence of pieces, a piece being either one of the tokens or a
  stretch of other text; text is \<open>plain\<close> when no two opening braces follow one another in
  it and it does not end with one, so that it cannot hold a token or the start of one.
  \<open>renderedWith\<close> is what rendering is meant to give: each token replaced by its form,
  the text left as it is.
\<close>

datatype token = CanonicalName | PascalName | SnakeName | KebabName | CamelName | UpperName

fun tokenText :: "token \<Rightarrow> string" where
  "tokenText CanonicalName = ''{{moduleName}}''"
| "tokenText PascalName = ''{{ModuleName}}''"
| "tokenText SnakeName = ''{{module_name}}''"
| "tokenText KebabName = ''{{module-name}}''"
| "tokenText CamelName = ''{{camelModuleName}}''"
| "tokenText UpperName = ''{{MODULE_NAME}}''"

fun variant :: "string \<Rightarrow> token \<Rightarrow> string" where
  "variant m CanonicalName = m"
| "variant m PascalName = toPascalCase m"
| "variant m SnakeName = toSnakeCase m"
| "variant m KebabName = toKebabCase m"
| "variant m CamelName = toCamelCase m"
| "variant m UpperName = toUpperCase m"

definition userProfileForm :: "token \<Rightarrow> string" where
  \<comment> \<open>the forms the specification lists for the module name \<^verbatim>\<open>userProfile\<close>\<close>
  "userProfileForm t =
     (case t of
        CanonicalName \<Rightarrow> ''userProfile''
      | PascalName \<Rightarrow> ''UserProfile''
      | CamelName \<Rightarrow> ''userProfile''
      | KebabName \<Rightarrow> ''user-profile''
      | SnakeName \<Rightarrow> ''user_profile''
      | UpperName \<Rightarrow> ''USERPROFILE'')"

datatype piece = Text string | Placeholder token

fun plainText :: "string \<Rightarrow> bool" where
  "plainText [] = True"
| "plainText [c] = (c \<noteq> CHR ''{'')"
| "plainText (c # d # s) = (\<not> (c = CHR ''{'' \<and> d = CHR ''{'') \<and> plainText (d # s))"

fun plainPiece :: "piece \<Rightarrow> bool" where
  "plainPiece (Text s) = plainText s"
| "plainPiece (Placeholder t) = True"

fun templateText :: "piece list \<Rightarrow> string" where
  "templateText [] = []"
| "templateText (Text s # ps) = s @ templateText ps"
| "templateText (Placeholder t # ps) = tokenText t @ templateText ps"

fun renderedWith :: "(token \<Rightarrow> string) \<Rightarrow> piece list \<Rightarrow> string" where
  "renderedWith form [] = []"
| "renderedWith form (Text s # ps) = s @ renderedWith form ps"
| "renderedWith form (Placeholder t # ps) = form t @ renderedWith form ps"

fun resolve :: "token \<Rightarrow> string \<Rightarrow> piece \<Rightarrow> piece" where
  \<comment> \<open>one pass: the occurrences of one token become text\<close>
  "resolve k v (Text s) = Text s"
| "resolve k v (Placeholder t) = (if t = k then Text v else Placeholder t)"

section \<open>Example configurations and file systems\<close>

definition moduleTemplate :: templateConfig where
  "moduleTemplate =
     \<lparr>extension = ''module.ts'', required = True, outputPath = None, filename = None\<rparr>"


definition createDtoTemplate :: templateConfig where
  "createDtoTemplate =
     \<lparr>extension = ''dto.ts'', required = False, outputPath = Some ''dto'',
      filename = Some ''create-{{moduleName}}.dto.ts''\<rparr>"

definition schemaTemplate :: templateConfig where
  "schemaTemplate =
     \<lparr>extension = ''schema.ts'', required = False, outputPath = Some ''schema'',
      filename = Some ''{{moduleName}}.schema.ts''\<rparr>"

definition pascalDtoTemplate :: templateConfig where
  \<comment> \<open>a file name pattern that uses a placeholder other than \<^verbatim>\<open>{{moduleName}}\<close>\<close>
  "pascalDtoTemplate =
     \<lparr>extension = ''dto.ts'', required = False, outputPath = Some ''dto'',
      filename = Some ''{{ModuleName}}.dto.ts''\<rparr>"

definition partialUserConfig :: userConfig where
  \<comment> \<open>a \<^verbatim>\<open>generator.config.js\<close> that sets \<^verbatim>\<open>outputDir\<close> and one exclusion only\<close>
  "partialUserConfig =
     \<lparr>userTemplatesDir = None, userOutputDir = Some ''./out'', userTemplates = None,
      userExclusions = Some [''create-dto'' \<mapsto> [''users'']]\<rparr>"


definition freshWorld :: world where
  \<comment> \<open>two templates, nothing generated yet\<close>
  "freshWorld =
     \<lparr>fsys = [''./templates'' \<mapsto> Dir,
              ''templates/module.stub'' \<mapsto> File ''export class {{ModuleName}}Module {}'',
              ''templates/schema.stub'' \<mapsto> File ''collection: {{module-name}}''],
      denied = {}, calls = []\<rparr>"




definition controllerPieces :: "piece list" where
  \<comment> \<open>a template with all six tokens, most of them more than once\<close>
  "controllerPieces =
     [Text ''class '', Placeholder PascalName, Text ''Controller { '',
      Placeholder CamelName, Text ''Service: '', Placeholder PascalName, Text ''Service; route = '',
      Placeholder KebabName, Text ''/'', Placeholder KebabName, Text ''; table = '',
      Placeholder SnakeName, Text ''; KEY = '', Placeholder UpperName, Text ''_'',
      Placeholder UpperName, Text ''; file = '', Placeholder CanonicalName, Text ''.service; '',
      Placeholder CanonicalName, Placeholder SnakeName, Text '' }'']"

section \<open>Naming transforms\<close>







section \<open>The exclusion table\<close>



section \<open>Replacement values without a dollar sign\<close>

lemma getSubstitution_plain:
  "CHR ''$'' \<notin> set rep \<Longrightarrow> getSubstitution matched pre post rep = rep"
  by (induction matched pre post rep rule: getSubstitution.induct) auto

lemma replaceAllFrom_plain:
  assumes "CHR ''$'' \<notin> set rep"
  shows "replaceAllFrom pat rep pre k s = substituteEvery pat rep (drop k s)"
proof (induction s arbitrary: pre k)
  case Nil
  then show ?case by simp
next
  case (Cons c cs)
  show ?case
  proof (cases k)
    case 0
    show ?thesis
    proof (cases "pat \<noteq> [] \<and> startsWith pat (c # cs)")
      case True
      then have "drop (length pat) (c # cs) = drop (length pat - 1) cs"
        by (cases pat) simp_all
      then show ?thesis
        using True 0 Cons.IH assms by (simp add: getSubstitution_plain)
    next
      case False
      then show ?thesis using 0 Cons.IH by auto
    qed
  next
    case (Suc j)
    then show ?thesis using Cons.IH by simp
  qed
qed

lemma replaceAll_plain:
  "CHR ''$'' \<notin> set rep \<Longrightarrow> replaceAll pat rep s = substituteEvery pat rep s"
  by (simp add: replaceAll_def replaceAllFrom_plain)

section \<open>Rendering\<close>

lemma no_brace_plainText: "CHR ''{'' \<notin> set s \<Longrightarrow> plainText s"
  by (induction s rule: plainText.induct) auto

lemma substituteEvery_text:
  assumes "plainText s"
  shows "substituteEvery (CHR ''{'' # CHR ''{'' # tok) v (s @ r) =
         s @ substituteEvery (CHR ''{'' # CHR ''{'' # tok) v r"
  using assms
proof (induction s rule: plainText.induct)
  case 1
  then show ?case by simp
next
  case (2 c)
  then show ?case by simp
next
  case (3 c d s)
  then show ?case by auto
qed

lemma tokenText_braces: "\<exists>tok. tokenText k = CHR ''{'' # CHR ''{'' # tok"
  by (cases k) simp_all

lemma substituteEvery_same:
  "substituteEvery (tokenText k) v (tokenText k @ r) = v @ substituteEvery (tokenText k) v r"
  by (cases k) simp_all

lemma substituteEvery_other:
  "j \<noteq> k \<Longrightarrow>
   substituteEvery (tokenText k) v (tokenText j @ r) = tokenText j @ substituteEvery (tokenText k) v r"
  by (cases k; cases j) simp_all

lemma substituteEvery_pieces:
  assumes "list_all plainPiece ps"
  shows "substituteEvery (tokenText k) v (templateText ps) = templateText (map (resolve k v) ps)"
  using assms
proof (induction ps)
  case Nil
  then show ?case by simp
next
  case (Cons p ps)
  obtain tok where tok: "tokenText k = CHR ''{'' # CHR ''{'' # tok"
    using tokenText_braces by blast
  show ?case
  proof (cases p)
    case (Text s)
    then have "plainText s" using Cons.prems by simp
    then show ?thesis
      using Text Cons substituteEvery_text [of s tok v "templateText ps"] tok by simp
  next
    case (Placeholder t)
    then show ?thesis
      using Cons by (cases "t = k") (simp_all add: substituteEvery_same substituteEvery_other)
  qed
qed


lemma toUpperChar_special:
  assumes "x = CHR ''{'' \<or> x = CHR ''$''" and "c \<noteq> x"
  shows "toUpperChar c \<noteq> x"
  using assms
  by (auto simp: toUpperChar_def isLowerAZ_def char_of_eq_iff take_bit_eq_mod)

lemma toLowerChar_special:
  assumes "x = CHR ''{'' \<or> x = CHR ''$''" and "c \<noteq> x"
  shows "toLowerChar c \<noteq> x"
  using assms
  by (auto simp: toLowerChar_def isUpperAZ_def char_of_eq_iff take_bit_eq_mod)

lemma replaceCaseBoundary_set: "set (replaceCaseBoundary sep s) \<subseteq> insert sep (set s)"
  by (induction sep s rule: replaceCaseBoundary.induct) auto

lemma toUpperCase_special:
  assumes x: "x = CHR ''{'' \<or> x = CHR ''$''" and s: "x \<notin> set s"
  shows "x \<notin> set (toUpperCase s)"
proof
  assume "x \<in> set (toUpperCase s)"
  then obtain c where c: "c \<in> set s" "toUpperChar c = x"
    by (auto simp: toUpperCase_def)
  then have "c \<noteq> x" using s by auto
  then show False using toUpperChar_special [OF x] c by blast
qed

lemma toLowerCase_special:
  assumes x: "x = CHR ''{'' \<or> x = CHR ''$''" and s: "x \<notin> set s"
  shows "x \<notin> set (toLowerCase s)"
proof
  assume "x \<in> set (toLowerCase s)"
  then obtain c where c: "c \<in> set s" "toLowerChar c = x"
    by (auto simp: toLowerCase_def)
  then have "c \<noteq> x" using s by auto
  then show False using toLowerChar_special [OF x] c by blast
qed

lemma variant_special:
  assumes x: "x = CHR ''{'' \<or> x = CHR ''$''" and m: "x \<notin> set m"
  shows "x \<notin> set (variant m t)"
proof (cases t)
  case CanonicalName
  then show ?thesis using m by simp
next
  case PascalName
  have "x \<notin> set (take 1 m)" "x \<notin> set (drop 1 m)"
    using m by (auto dest: in_set_takeD in_set_dropD)
  then show ?thesis
    using PascalName toUpperCase_special [OF x] by (simp add: toPascalCase_def)
next
  case SnakeName
  have "x \<notin> set (replaceCaseBoundary (CHR ''_'') m)"
    using replaceCaseBoundary_set [of "CHR ''_''" m] x m by auto
  then show ?thesis
    using SnakeName toLowerCase_special [OF x] by (simp add: toSnakeCase_def)
next
  case KebabName
  have "x \<notin> set (replaceCaseBoundary (CHR ''-'') m)"
    using replaceCaseBoundary_set [of "CHR ''-''" m] x m by auto
  then show ?thesis
    using KebabName toLowerCase_special [OF x] by (simp add: toKebabCase_def)
next
  case CamelName
  have "x \<notin> set (take 1 m)" "x \<notin> set (drop 1 m)"
    using m by (auto dest: in_set_takeD in_set_dropD)
  then show ?thesis
    using CamelName toLowerCase_special [OF x] by (simp add: toCamelCase_def)
next
  case UpperName
  then show ?thesis using toUpperCase_special [OF x m] by simp
qed

lemma resolve_plainPiece:
  "CHR ''{'' \<notin> set v \<Longrightarrow> plainPiece p \<Longrightarrow> plainPiece (resolve k v p)"
  by (cases p) (simp_all add: no_brace_plainText)

lemma resolve_plain:
  "CHR ''{'' \<notin> set v \<Longrightarrow> list_all plainPiece ps \<Longrightarrow> list_all plainPiece (map (resolve k v) ps)"
  by (induction ps) (simp_all add: resolve_plainPiece)


lemma replaceAll_pieces:
  assumes "CHR ''$'' \<notin> set v" and "list_all plainPiece ps"
  shows "replaceAll (tokenText k) v (templateText ps) = templateText (map (resolve k v) ps)"
  using assms by (simp add: replaceAll_plain substituteEvery_pieces)

lemma resolve_all:
  "templateText
     (map (resolve UpperName (variant m UpperName))
       (map (resolve CamelName (variant m CamelName))
         (map (resolve KebabName (variant m KebabName))
           (map (resolve SnakeName (variant m SnakeName))
             (map (resolve PascalName (variant m PascalName))
               (map (resolve CanonicalName (variant m CanonicalName)) ps)))))) =
   renderedWith (variant m) ps"
proof (induction ps)
  case Nil
  then show ?case by simp
next
  case (Cons p ps)
  show ?case
  proof (cases p)
    case (Text s)
    then show ?thesis using Cons by simp
  next
    case (Placeholder t)
    then show ?thesis using Cons by (cases t) simp_all
  qed
qed

lemma replacePlaceholders_unfold:
  "replacePlaceholders m c =
     replaceAll (tokenText UpperName) (variant m UpperName)
       (replaceAll (tokenText CamelName) (variant m CamelName)
         (replaceAll (tokenText KebabName) (variant m KebabName)
           (replaceAll (tokenText SnakeName) (variant m SnakeName)
             (replaceAll (tokenText PascalName) (variant m PascalName)
               (replaceAll (tokenText CanonicalName) (variant m CanonicalName) c)))))"
  by (simp add: replacePlaceholders_def replacements_def)

lemma render_pieces:
  assumes d: "CHR ''$'' \<notin> set m" and b: "CHR ''{'' \<notin> set m" and ps: "list_all plainPiece ps"
  shows "replacePlaceholders m (templateText ps) = renderedWith (variant m) ps"
proof -
  have vd: "CHR ''$'' \<notin> set (variant m t)" for t
    using variant_special [of "CHR ''$''" m t] d by simp
  have vb: "CHR ''{'' \<notin> set (variant m t)" for t
    using variant_special [of "CHR ''{''" m t] b by simp
  let ?p1 = "map (resolve CanonicalName (variant m CanonicalName)) ps"
  let ?p2 = "map (resolve PascalName (variant m PascalName)) ?p1"
  let ?p3 = "map (resolve SnakeName (variant m SnakeName)) ?p2"
  let ?p4 = "map (resolve KebabName (variant m KebabName)) ?p3"
  let ?p5 = "map (resolve CamelName (variant m CamelName)) ?p4"
  let ?p6 = "map (resolve UpperName (variant m UpperName)) ?p5"
  have w1: "list_all plainPiece ?p1" by (rule resolve_plain [OF vb ps])
  have w2: "list_all plainPiece ?p2" by (rule resolve_plain [OF vb w1])
  have w3: "list_all plainPiece ?p3" by (rule resolve_plain [OF vb w2])
  have w4: "list_all plainPiece ?p4" by (rule resolve_plain [OF vb w3])
  have w5: "list_all plainPiece ?p5" by (rule resolve_plain [OF vb w4])
  have "replacePlaceholders m (templateText ps) = templateText ?p6"
    unfolding replacePlaceholders_unfold
    by (simp only: replaceAll_pieces [OF vd ps] replaceAll_pieces [OF vd w1]
        replaceAll_pieces [OF vd w2] replaceAll_pieces [OF vd w3]
        replaceAll_pieces [OF vd w4] replaceAll_pieces [OF vd w5])
  also have "\<dots> = renderedWith (variant m) ps"
    by (rule resolve_all)
  finally show ?thesis .
qed

lemma variant_userProfile: "variant ''userProfile'' t = userProfileForm t"
  by (cases t) (simp_all add: userProfileForm_def; code_simp)+

text \<open>
  Claim C5. Rendering for the module name \<^verbatim>\<open>userProfile\<close> puts, in the place of every
  occurrence of each of the six placeholder tokens, the form the specification lists for
  it: \<^verbatim>\<open>userProfile\<close> (canonical), \<^verbatim>\<open>UserProfile\<close> (Pascal), \<^verbatim>\<open>userProfile\<close> (camel),
  \<^verbatim>\<open>user-profile\<close> (kebab), \<^verbatim>\<open>user_profile\<close> (snake) and \<^verbatim>\<open>USERPROFILE\<close> (upper
  snake). This holds for every template made of the tokens and plain text, whatever the
  number and order of the tokens.
\<close>

theorem render_userProfile:
  assumes "list_all plainPiece ps"
  shows "replacePlaceholders ''userProfile'' (templateText ps) = renderedWith userProfileForm ps"
proof -
  have "variant ''userProfile'' = userProfileForm"
    by (rule ext) (rule variant_userProfile)
  then show ?thesis
    using render_pieces [of "''userProfile''" ps] assms by simp
qed

text \<open>
  A template with all six tokens, and one with a token that is not recognised, which
  stays as it is.
\<close>

theorem render_userProfile_witness:
  "list_all plainPiece controllerPieces \<and>
   templateText controllerPieces =
     ''class {{ModuleName}}Controller { {{camelModuleName}}Service: {{ModuleName}}Service; route = {{module-name}}/{{module-name}}; table = {{module_name}}; KEY = {{MODULE_NAME}}_{{MODULE_NAME}}; file = {{moduleName}}.service; {{moduleName}}{{module_name}} }'' \<and>
   replacePlaceholders ''userProfile'' (templateText controllerPieces) =
     ''class UserProfileController { userProfileService: UserProfileService; route = user-profile/user-profile; table = user_profile; KEY = USERPROFILE_USERPROFILE; file = userProfile.service; userProfileuser_profile }'' \<and>
   replacePlaceholders ''userProfile'' ''{{ModuleName}} {{other}} {{{moduleName}}}'' =
     ''UserProfile {{other}} {userProfile}''"
proof -
  have p: "list_all plainPiece controllerPieces"
    by (simp add: controllerPieces_def)
  have t: "templateText controllerPieces =
     ''class {{ModuleName}}Controller { {{camelModuleName}}Service: {{ModuleName}}Service; route = {{module-name}}/{{module-name}}; table = {{module_name}}; KEY = {{MODULE_NAME}}_{{MODULE_NAME}}; file = {{moduleName}}.service; {{moduleName}}{{module_name}} }''"
    by (simp add: controllerPieces_def)
  have r: "renderedWith userProfileForm controllerPieces =
     ''class UserProfileController { userProfileService: UserProfileService; route = user-profile/user-profile; table = user_profile; KEY = USERPROFILE_USERPROFILE; file = userProfile.service; userProfileuser_profile }''"
    by (simp add: controllerPieces_def userProfileForm_def)
  have o: "replacePlaceholders ''userProfile'' ''{{ModuleName}} {{other}} {{{moduleName}}}'' =
     ''UserProfile {{other}} {userProfile}''"
    by code_simp
  show ?thesis
    using render_userProfile [OF p] p t r o by simp
qed

section \<open>Destination paths\<close>

text \<open>
  Claim C6, as amended. The destination directory is \<^verbatim>\<open>outputDir/moduleName\<close>, with the
  template's \<^verbatim>\<open>outputPath\<close> appended when it has one. The file name is the template's
  \<^verbatim>\<open>filename\<close> pattern, when it has a non-empty one, with every occurrence of the one
  token \<^verbatim>\<open>{{moduleName}}\<close> replaced by the module name (for a module name without
  \<^verbatim>\<open>$\<close>), and \<^verbatim>\<open>moduleName.extension\<close> otherwise. The other five placeholder tokens are
  not substituted in a file name.
\<close>

theorem destination_path:
  "outputPathOf cfg m tc =
     path_join ([outputDir cfg, m] @ (case outputPath tc of None \<Rightarrow> [] | Some sub \<Rightarrow> [sub])) \<and>
   (CHR ''$'' \<notin> set m \<longrightarrow>
      filenameOf m tc =
        (if truthy (filename tc) then substituteEvery ''{{moduleName}}'' m (the (filename tc))
         else m @ ''.'' @ extension tc)) \<and>
   fullPathOf cfg m tc = path_join [outputPathOf cfg m tc, filenameOf m tc]"
  by (auto simp: outputPathOf_def filenameOf_def fullPathOf_def truthy_def replaceAll_plain
      path_join_def split: option.splits)

text \<open>
  The example of the claim: sub-directory \<^verbatim>\<open>dto\<close>, pattern
  \<^verbatim>\<open>create-{{moduleName}}.dto.ts\<close>, module \<^verbatim>\<open>orders\<close>, under the built-in output directory
  and under the output directory \<^verbatim>\<open>outputDir\<close>.
\<close>

theorem destination_path_witness:
  "CHR ''$'' \<notin> set ''orders'' \<and>
   outputPathOf defaultConfig ''orders'' createDtoTemplate = ''src/modules/orders/dto'' \<and>
   filenameOf ''orders'' createDtoTemplate = ''create-orders.dto.ts'' \<and>
   fullPathOf defaultConfig ''orders'' createDtoTemplate =
     ''src/modules/orders/dto/create-orders.dto.ts'' \<and>
   fullPathOf (defaultConfig\<lparr>outputDir := ''outputDir''\<rparr>) ''orders'' createDtoTemplate =
     ''outputDir/orders/dto/create-orders.dto.ts'' \<and>
   filenameOf ''orders'' moduleTemplate = ''orders.module.ts''"
proof -
  have dir: "path_join [outputDir defaultConfig, ''orders'', ''dto''] = ''src/modules/orders/dto''"
    by code_simp
  have name: "substituteEvery ''{{moduleName}}'' ''orders'' ''create-{{moduleName}}.dto.ts''
      = ''create-orders.dto.ts''"
    by code_simp
  have full: "path_join [''src/modules/orders/dto'', ''create-orders.dto.ts'']
      = ''src/modules/orders/dto/create-orders.dto.ts''"
    by code_simp
  have other: "fullPathOf (defaultConfig\<lparr>outputDir := ''outputDir''\<rparr>) ''orders'' createDtoTemplate =
     ''outputDir/orders/dto/create-orders.dto.ts''"
    by code_simp
  have tc: "outputPath createDtoTemplate = Some ''dto''"
    "filename createDtoTemplate = Some ''create-{{moduleName}}.dto.ts''"
    "filename moduleTemplate = None" "extension moduleTemplate = ''module.ts''"
    by (simp_all add: createDtoTemplate_def moduleTemplate_def)
  show ?thesis
    using destination_path [of defaultConfig "''orders''" createDtoTemplate]
      destination_path [of defaultConfig "''orders''" moduleTemplate]
    by (simp add: tc dir name full other truthy_def)
qed

text \<open>
  The claim as first stated has the whole renderer applied to the file name pattern. It
  is not: the pattern \<^verbatim>\<open>{{ModuleName}}.dto.ts\<close> stays as it is, where the renderer would
  give \<^verbatim>\<open>Orders.dto.ts\<close>.
\<close>

theorem destination_path_counterexample:
  "filename pascalDtoTemplate = Some ''{{ModuleName}}.dto.ts'' \<and>
   filenameOf ''orders'' pascalDtoTemplate = ''{{ModuleName}}.dto.ts'' \<and>
   replacePlaceholders ''orders'' ''{{ModuleName}}.dto.ts'' = ''Orders.dto.ts'' \<and>
   fullPathOf defaultConfig ''orders'' pascalDtoTemplate =
     ''src/modules/orders/dto/{{ModuleName}}.dto.ts''"
  by code_simp

section \<open>Generating one file\<close>

lemma called_simps:
  "fsys (called c w) = fsys w" "denied (called c w) = denied w"
  "calls (called c w) = calls w @ [c]"
  by (simp_all add: called_def)

lemmas generateFile_unfold =
  generateFile_def processTemplate_def existsSync_def readFileSync_def mkdirSync_def
  writeFileSync_def called_simps Let_def

lemma generateFile_keeps:
  assumes "fsys w p = Some n"
  shows "fsys (snd (generateFile cfg m t tc w)) p = Some n"
  using assms
  by (auto simp: generateFile_unfold
      split: option.splits node.splits prod.splits sum.splits bool.splits)





lemma auth_schema_excluded: "shouldExclude defaultConfig ''auth'' ''schema''"
  by (simp add: shouldExclude_def defaultConfig_def)

text \<open>
  Claim C3. When the module is in the exclusion list of the template, \<^verbatim>\<open>generateFile\<close>
  reports the skip and leaves the world as it is: no call of an \<^verbatim>\<open>fs\<close> function is made,
  so no template is read, no directory created and nothing written.
\<close>

theorem excluded_no_access:
  "shouldExclude cfg m t \<Longrightarrow> generateFile cfg m t tc w = (SkippedExcluded, w)"
  by (simp add: generateFile_def)

theorem excluded_no_access_witness:
  "shouldExclude defaultConfig ''auth'' ''schema'' \<and>
   generateFile defaultConfig ''auth'' ''schema'' schemaTemplate freshWorld =
     (SkippedExcluded, freshWorld)"
  using excluded_no_access [OF auth_schema_excluded] auth_schema_excluded by simp







section \<open>Generating modules\<close>









lemma default_templatesDir: "templatesDir defaultConfig = ''./templates''"
  by (simp add: defaultConfig_def)





section \<open>Loading a configuration\<close>

text \<open>
  Claim C9. After a user configuration is loaded, each of the four top-level properties
  is the user's value when the user configuration has that property, and the built-in
  value otherwise. Nothing is merged below the top level: with a user \<^verbatim>\<open>exclusions\<close>
  object, what is excluded is decided by that object alone.
\<close>

theorem user_config_shallow_merge:
  "templatesDir (loadConfig cfg (Exports u)) =
     (case userTemplatesDir u of Some v \<Rightarrow> v | None \<Rightarrow> templatesDir cfg) \<and>
   outputDir (loadConfig cfg (Exports u)) =
     (case userOutputDir u of Some v \<Rightarrow> v | None \<Rightarrow> outputDir cfg) \<and>
   templates (loadConfig cfg (Exports u)) =
     (case userTemplates u of Some v \<Rightarrow> v | None \<Rightarrow> templates cfg) \<and>
   exclusions (loadConfig cfg (Exports u)) =
     (case userExclusions u of Some v \<Rightarrow> v | None \<Rightarrow> exclusions cfg) \<and>
   (userExclusions u = Some ex \<longrightarrow>
      shouldExclude (loadConfig cfg (Exports u)) m t = (\<exists>l. ex t = Some l \<and> m \<in> set l))"
  by (auto simp: loadConfig_def mergeConfig_def spreadProperty_def shouldExclude_def
      split: option.splits)

theorem user_config_shallow_merge_witness:
  "templatesDir (loadConfig defaultConfig (Exports partialUserConfig)) = ''./templates'' \<and>
   outputDir (loadConfig defaultConfig (Exports partialUserConfig)) = ''./out'' \<and>
   templates (loadConfig defaultConfig (Exports partialUserConfig)) = templates defaultConfig \<and>
   shouldExclude (loadConfig defaultConfig (Exports partialUserConfig)) ''users'' ''create-dto'' \<and>
   shouldExclude defaultConfig ''auth'' ''schema'' \<and>
   \<not> shouldExclude (loadConfig defaultConfig (Exports partialUserConfig)) ''auth'' ''schema''"
  using user_config_shallow_merge [where cfg = defaultConfig and u = partialUserConfig
      and ex = "[''create-dto'' \<mapsto> [''users'']]" and m = "''users''" and t = "''create-dto''"]
    user_config_shallow_merge [where cfg = defaultConfig and u = partialUserConfig
      and ex = "[''create-dto'' \<mapsto> [''users'']]" and m = "''auth''" and t = "''schema''"]
    auth_schema_excluded
  by (simp add: partialUserConfig_def default_templatesDir)

end
